theory Spec2Isabelle
  imports
    Complex_Main
    "HOL-Library.Multiset"
    "HOL-Library.Char_ord"
    "HOL-Library.List_Lexorder"
    "HOL-Library.Product_Lexorder"
begin

section \<open>Data model\<close>

text \<open>
  The program (\<^verbatim>\<open>streamlit_app_2.py\<close>) works on pandas data frames. A calendar date is the
  triple (year, month, day); a timestamp is a date together with the nanoseconds elapsed
  since midnight UTC. With the lexicographic order on products, \<open>\<le>\<close> on both types is the
  chronological order.
\<close>

type_synonym date = "int \<times> nat \<times> nat"

type_synonym timestamp = "date \<times> nat"

text \<open>
  A cell of a data frame: a missing value (pandas \<^verbatim>\<open>NaN\<close>/\<^verbatim>\<open>NaT\<close>), a text, a number or a
  timestamp. The type \<open>'f\<close> stands for the 64-bit floats other than \<^verbatim>\<open>NaN\<close> (finite or
  infinite); nothing is assumed of it but its order. A boolean is its number, as in Python.
\<close>

datatype 'f cell = NaN | Str string | Num 'f | Ts timestamp

text \<open>
  The order pandas sorts group labels by: numbers before texts (labels of mixed type are
  sorted so), missing values last.
\<close>

fun cell_rank :: "'f cell \<Rightarrow> nat" where
  "cell_rank (Num x) = 0"
| "cell_rank (Str s) = 1"
| "cell_rank (Ts t) = 2"
| "cell_rank NaN = 3"

fun cell_le :: "'f::linorder cell \<Rightarrow> 'f cell \<Rightarrow> bool" where
  "cell_le (Num x) (Num y) \<longleftrightarrow> x \<le> y"
| "cell_le (Str s) (Str t) \<longleftrightarrow> s \<le> t"
| "cell_le (Ts a) (Ts b) \<longleftrightarrow> a \<le> b"
| "cell_le c d \<longleftrightarrow> cell_rank c \<le> cell_rank d"

instantiation cell :: (linorder) linorder
begin

definition less_eq_cell :: "'a cell \<Rightarrow> 'a cell \<Rightarrow> bool" where
  "less_eq_cell c d \<longleftrightarrow> cell_le c d"

definition less_cell :: "'a cell \<Rightarrow> 'a cell \<Rightarrow> bool" where
  "less_cell c d \<longleftrightarrow> cell_le c d \<and> \<not> cell_le d c"

instance
proof
  fix x y z :: "'a cell"
  show "x < y \<longleftrightarrow> x \<le> y \<and> \<not> y \<le> x"
    by (simp add: less_eq_cell_def less_cell_def)
  show "x \<le> x"
    by (cases x) (simp_all add: less_eq_cell_def)
  show "x \<le> y \<Longrightarrow> y \<le> z \<Longrightarrow> x \<le> z"
    by (cases x; cases y; cases z) (auto simp: less_eq_cell_def)
  show "x \<le> y \<Longrightarrow> y \<le> x \<Longrightarrow> x = y"
    by (cases x; cases y) (auto simp: less_eq_cell_def)
  show "x \<le> y \<or> y \<le> x"
    by (cases x; cases y) (auto simp: less_eq_cell_def)
qed

end

text \<open>
  A row maps a column label to its cell; a frame is the list of its column labels and the
  list of its rows.
\<close>

type_synonym 'f row = "string \<Rightarrow> 'f cell"

record 'f frame =
  columns :: "string list"
  rows :: "'f row list"

text \<open>\<^verbatim>\<open>pd.DataFrame()\<close>: no columns, no rows.\<close>

definition empty_frame :: "'f frame" where
  "empty_frame = \<lparr>columns = [], rows = []\<rparr>"

text \<open>\<^verbatim>\<open>df.empty\<close>: some axis has length zero.\<close>

definition df_empty :: "'f frame \<Rightarrow> bool" where
  "df_empty df \<longleftrightarrow> columns df = [] \<or> rows df = []"

text \<open>
  \<^verbatim>\<open>df[c]\<close>, the cells of a column, and \<^verbatim>\<open>df[c] = v\<close>, where \<open>v i\<close> is the new cell of
  row \<open>i\<close>.
\<close>

definition column :: "string \<Rightarrow> 'f frame \<Rightarrow> 'f cell list" where
  "column c df = map (\<lambda>r. r c) (rows df)"

definition assign :: "string \<Rightarrow> (nat \<Rightarrow> 'f cell) \<Rightarrow> 'f frame \<Rightarrow> 'f frame" where
  "assign c v df =
     \<lparr>columns = (if c \<in> set (columns df) then columns df else columns df @ [c]),
      rows = map (\<lambda>i. (rows df ! i)(c := v i)) [0..<length (rows df)]\<rparr>"

text \<open>
  \<^verbatim>\<open>pd.concat([a, b], ignore_index=True)\<close>: the columns of \<open>a\<close> followed by the new columns
  of \<open>b\<close>, the rows of \<open>a\<close> followed by the rows of \<open>b\<close>; a row has \<^verbatim>\<open>NaN\<close> in every column
  its own frame does not have.
\<close>

definition reindex_row :: "string list \<Rightarrow> 'f row \<Rightarrow> 'f row" where
  "reindex_row cs r = (\<lambda>c. if c \<in> set cs then r c else NaN)"

definition concat_frames :: "'f frame \<Rightarrow> 'f frame \<Rightarrow> 'f frame" where
  "concat_frames a b =
     \<lparr>columns = columns a @ filter (\<lambda>c. c \<notin> set (columns a)) (columns b),
      rows = map (reindex_row (columns a)) (rows a) @ map (reindex_row (columns b)) (rows b)\<rparr>"

section \<open>Loading and normalising (\<^verbatim>\<open>load_data\<close>, lines 10 to 21)\<close>

text \<open>The exceptions that the pandas calls of the program raise.\<close>

datatype error =
    EmptyDataError
  | ParserError
  | UnicodeDecodeError
  | OSError
  | KeyError string
  | ValueError

text \<open>
  Line 14. A file that \<^verbatim>\<open>glob\<close> found is represented by what \<^verbatim>\<open>pd.read_csv\<close> does with it:
  it raises (\<^verbatim>\<open>EmptyDataError\<close> on a file of zero bytes, \<^verbatim>\<open>ParserError\<close> on a malformed
  one, \<^verbatim>\<open>UnicodeDecodeError\<close> or \<^verbatim>\<open>OSError\<close> on one it cannot decode or open), or it
  returns a frame.
\<close>

datatype 'f csv_file = Unreadable error | Table "'f frame"

fun read_csv :: "'f csv_file \<Rightarrow> error + 'f frame" where
  "read_csv (Unreadable e) = Inl e"
| "read_csv (Table df) = Inr df"

text \<open>
  \<^verbatim>\<open>pd.to_datetime(..., errors="coerce", utc=True)\<close> and
  \<^verbatim>\<open>pd.to_numeric(..., errors="coerce")\<close> are library functions that take a whole column;
  the model takes them as the parameters \<open>to_datetime\<close> and \<open>to_numeric\<close>, where
  \<open>to_datetime col i\<close> is the value at position \<open>i\<close> of the result for the column \<open>col\<close>,
  \<open>None\<close> for \<^verbatim>\<open>NaT\<close>/\<^verbatim>\<open>NaN\<close>. So the value of a row may depend on the other rows of its
  file, as it does when pandas takes the date format of the first value for the column.
\<close>

definition coerce_date :: "timestamp option \<Rightarrow> 'f cell" where
  "coerce_date v = (case v of None \<Rightarrow> NaN | Some t \<Rightarrow> Ts t)"

definition coerce_rating :: "'f option \<Rightarrow> 'f cell" where
  "coerce_rating v = (case v of None \<Rightarrow> NaN | Some x \<Rightarrow> Num x)"

text \<open>Line 15: the file has the three mandatory columns.\<close>

definition has_mandatory :: "'f frame \<Rightarrow> bool" where
  "has_mandatory df \<longleftrightarrow>
     \<not> (''Date'' \<notin> set (columns df) \<or> ''Rating'' \<notin> set (columns df)
        \<or> ''Brand'' \<notin> set (columns df))"

text \<open>Line 19: \<^verbatim>\<open>dropna(subset=["Date", "Rating"])\<close>.\<close>

definition dropna :: "'f row list \<Rightarrow> 'f row list" where
  "dropna rs = filter (\<lambda>r. r ''Date'' \<noteq> NaN \<and> r ''Rating'' \<noteq> NaN) rs"

text \<open>Lines 17 to 19.\<close>

definition normalize ::
  "('f cell list \<Rightarrow> nat \<Rightarrow> timestamp option) \<Rightarrow> ('f cell list \<Rightarrow> nat \<Rightarrow> 'f option)
     \<Rightarrow> 'f frame \<Rightarrow> 'f frame" where
  "normalize to_datetime to_numeric df =
     (let df1 = assign ''Date'' (\<lambda>i. coerce_date (to_datetime (column ''Date'' df) i)) df;
          df2 = assign ''Rating'' (\<lambda>i. coerce_rating (to_numeric (column ''Rating'' df1) i)) df1
      in df2\<lparr>rows := dropna (rows df2)\<rparr>)"

text \<open>
  The loop of lines 13 to 20, with the accumulator \<^verbatim>\<open>df_all\<close>; an exception of
  \<^verbatim>\<open>read_csv\<close> ends the loop and the function.
\<close>

fun load_loop ::
  "('f cell list \<Rightarrow> nat \<Rightarrow> timestamp option) \<Rightarrow> ('f cell list \<Rightarrow> nat \<Rightarrow> 'f option)
     \<Rightarrow> 'f csv_file list \<Rightarrow> 'f frame \<Rightarrow> error + 'f frame" where
  "load_loop to_datetime to_numeric [] df_all = Inr df_all"
| "load_loop to_datetime to_numeric (file # csv_files) df_all =
     (case read_csv file of
        Inl e \<Rightarrow> Inl e
      | Inr df \<Rightarrow>
          if \<not> has_mandatory df then load_loop to_datetime to_numeric csv_files df_all
          else load_loop to_datetime to_numeric csv_files
                 (concat_frames df_all (normalize to_datetime to_numeric df)))"

definition load_data ::
  "('f cell list \<Rightarrow> nat \<Rightarrow> timestamp option) \<Rightarrow> ('f cell list \<Rightarrow> nat \<Rightarrow> 'f option)
     \<Rightarrow> 'f csv_file list \<Rightarrow> error + 'f frame" where
  "load_data to_datetime to_numeric csv_files =
     load_loop to_datetime to_numeric csv_files empty_frame"

section \<open>The Monthly Ratings page (lines 30 to 64)\<close>

text \<open>
  Line 36: \<^verbatim>\<open>.dt.to_period("M").dt.to_timestamp()\<close> truncates a timestamp to the start of its
  month. A month is represented by its ordinal \<open>12 * year + (month - 1)\<close>, so that
  consecutive calendar months are consecutive integers.
\<close>

definition to_period_M :: "timestamp \<Rightarrow> int" where
  "to_period_M t = (case t of ((y, m, d), ns) \<Rightarrow> 12 * y + int m - 1)"

text \<open>
  The (Brand, Month, Rating) triple of a row. Every row of a loaded dataset carries a
  timestamp in Date and a number in Rating (line 19 dropped the others; lemma
  \<open>load_data_typed\<close> below). The brand is the Brand cell, whatever its type; a row whose
  Brand is missing has no group key (\<^verbatim>\<open>groupby\<close> drops missing keys).
\<close>

fun observation_of :: "'f cell \<Rightarrow> 'f cell \<Rightarrow> 'f cell \<Rightarrow> ('f cell \<times> int \<times> 'f) option" where
  "observation_of NaN d x = None"
| "observation_of b (Ts t) (Num x) = Some (b, to_period_M t, x)"
| "observation_of b d x = None"

definition observation :: "'f row \<Rightarrow> ('f cell \<times> int \<times> 'f) option" where
  "observation r = observation_of (r ''Brand'') (r ''Date'') (r ''Rating'')"

definition group_key :: "'b \<times> int \<times> 'v \<Rightarrow> 'b \<times> int" where
  "group_key ob = (fst ob, fst (snd ob))"

text \<open>
  Line 37, \<^verbatim>\<open>groupby(["Brand", "Month"])["Rating"]\<close>: the groups, sorted by (Brand, Month),
  each with the ratings of its rows in the order of the rows.
\<close>

definition groupby :: "('b::linorder \<times> int \<times> 'f) list \<Rightarrow> (('b \<times> int) \<times> 'f list) list" where
  "groupby obs =
     map (\<lambda>k. (k, map (\<lambda>ob. snd (snd ob)) (filter (\<lambda>ob. group_key ob = k) obs)))
       (sort (remdups (map group_key obs)))"

text \<open>
  Line 37, \<^verbatim>\<open>.mean().reset_index()\<close>: one row per group. The float mean that pandas
  computes is the parameter \<open>mean\<close>: it takes the ratings of a group in their order and
  returns the rounded mean, \<open>None\<close> when the result is \<^verbatim>\<open>NaN\<close> (ratings \<^verbatim>\<open>inf\<close> and \<^verbatim>\<open>-inf\<close>
  in one group).
\<close>

definition groupby_mean ::
  "('f list \<Rightarrow> 'f option) \<Rightarrow> ('b::linorder \<times> int \<times> 'f) list \<Rightarrow> ('b \<times> int \<times> 'f option) list" where
  "groupby_mean mean obs = map (\<lambda>(k, xs). (fst k, snd k, mean xs)) (groupby obs)"

definition monthly_avg ::
  "('f list \<Rightarrow> 'f option) \<Rightarrow> 'f::linorder frame \<Rightarrow> error + ('f cell \<times> int \<times> 'f option) list" where
  "monthly_avg mean df_all =
     (if ''Date'' \<notin> set (columns df_all) then Inl (KeyError ''Date'')
      else if ''Brand'' \<notin> set (columns df_all) then Inl (KeyError ''Brand'')
      else if ''Rating'' \<notin> set (columns df_all) then Inl (KeyError ''Column not found: Rating'')
      else Inr (groupby_mean mean (List.map_filter observation (rows df_all))))"

text \<open>
  Line 38: \<^verbatim>\<open>pivot(index="Month", columns="Brand", values="Rating")\<close>: the sorted months as
  index, one column per brand (sorted), \<open>None\<close> (\<^verbatim>\<open>NaN\<close>) where the brand has no value for
  the month. pandas raises \<^verbatim>\<open>ValueError\<close> on a duplicate (Month, Brand) pair.
\<close>

record ('b, 'v) pivot_table =
  pt_index :: "int list"
  pt_columns :: "('b \<times> 'v option list) list"

definition pivot :: "('b::linorder \<times> int \<times> 'v option) list \<Rightarrow> error + ('b, 'v) pivot_table" where
  "pivot monthly =
     (if \<not> distinct (map group_key monthly) then Inl ValueError
      else Inr \<lparr>pt_index = sort (remdups (map (\<lambda>ob. fst (snd ob)) monthly)),
                pt_columns =
                  map (\<lambda>b. (b, map (\<lambda>m. case map_of (map (\<lambda>ob. (group_key ob, snd (snd ob))) monthly)
                                             (b, m) of
                                        None \<Rightarrow> None | Some v \<Rightarrow> v)
                                 (sort (remdups (map (\<lambda>ob. fst (snd ob)) monthly)))))
                    (sort (remdups (map fst monthly)))\<rparr>)"

text \<open>\<^verbatim>\<open>pivot_df.index.min()\<close> and \<^verbatim>\<open>.max()\<close>: \<open>None\<close> (\<^verbatim>\<open>NaT\<close>) on an empty index.\<close>

definition index_min :: "int list \<Rightarrow> int option" where
  "index_min idx = (case idx of [] \<Rightarrow> None | m # ms \<Rightarrow> Some (fold min ms m))"

definition index_max :: "int list \<Rightarrow> int option" where
  "index_max idx = (case idx of [] \<Rightarrow> None | m # ms \<Rightarrow> Some (fold max ms m))"

text \<open>
  Line 41: \<^verbatim>\<open>pd.date_range(start, end, freq="MS")\<close> on month starts: every month from
  \<open>start\<close> to \<open>end\<close>; pandas raises \<^verbatim>\<open>ValueError\<close> when an end point is \<^verbatim>\<open>NaT\<close>.
\<close>

definition date_range :: "int option \<Rightarrow> int option \<Rightarrow> error + int list" where
  "date_range start end =
     (case start of None \<Rightarrow> Inl ValueError
      | Some s \<Rightarrow> (case end of None \<Rightarrow> Inl ValueError | Some e \<Rightarrow> Inr [s..e]))"

text \<open>Line 42: \<^verbatim>\<open>reindex(full_range)\<close>, then \<^verbatim>\<open>ffill()\<close> down every column.\<close>

definition reindex :: "int list \<Rightarrow> ('b, 'v) pivot_table \<Rightarrow> ('b, 'v) pivot_table" where
  "reindex new_index pt =
     \<lparr>pt_index = new_index,
      pt_columns =
        map (\<lambda>(b, vs). (b, map (\<lambda>m. case map_of (zip (pt_index pt) vs) m of
                                      None \<Rightarrow> None | Some v \<Rightarrow> v) new_index))
          (pt_columns pt)\<rparr>"

fun ffill_from :: "'a option \<Rightarrow> 'a option list \<Rightarrow> 'a option list" where
  "ffill_from prev [] = []"
| "ffill_from prev (None # vs) = prev # ffill_from prev vs"
| "ffill_from prev (Some v # vs) = Some v # ffill_from (Some v) vs"

definition ffill :: "('b, 'v) pivot_table \<Rightarrow> ('b, 'v) pivot_table" where
  "ffill pt = pt\<lparr>pt_columns := map (\<lambda>(b, vs). (b, ffill_from None vs)) (pt_columns pt)\<rparr>"

text \<open>
  Lines 45 and 46: \<^verbatim>\<open>reset_index().melt(...)\<close>: long form, one (Month, Brand, AvgRating)
  row per index entry and column, column after column. (A brand whose name is one of the
  labels these two lines introduce, "index" or "AvgRating", is outside the model.)
\<close>

definition melt :: "('b, 'v) pivot_table \<Rightarrow> (int \<times> 'b \<times> 'v option) list" where
  "melt pt =
     concat (map (\<lambda>(b, vs). map (\<lambda>(m, v). (m, b, v)) (zip (pt_index pt) vs)) (pt_columns pt))"

text \<open>Lines 38 to 46 (the operation the specification calls \<^verbatim>\<open>densify\<close>).\<close>

definition densify ::
  "('b::linorder \<times> int \<times> 'v option) list \<Rightarrow> error + (int \<times> 'b \<times> 'v option) list" where
  "densify monthly =
     (case pivot monthly of Inl e \<Rightarrow> Inl e
      | Inr pivot_df \<Rightarrow>
          (case date_range (index_min (pt_index pivot_df)) (index_max (pt_index pivot_df)) of
             Inl e \<Rightarrow> Inl e
           | Inr full_range \<Rightarrow> Inr (melt (ffill (reindex full_range pivot_df)))))"

text \<open>Lines 36 to 46.\<close>

definition chart_data ::
  "('f list \<Rightarrow> 'f option) \<Rightarrow> 'f::linorder frame \<Rightarrow> error + (int \<times> 'f cell \<times> 'f option) list" where
  "chart_data mean df_all =
     (case monthly_avg mean df_all of Inl e \<Rightarrow> Inl e | Inr monthly \<Rightarrow> densify monthly)"

text \<open>What a page shows: a Streamlit message, the chart, or the flagged reviews.\<close>

datatype 'f outcome =
    St_warning string
  | St_error string
  | St_success string
  | Altair_chart "(int \<times> 'f cell \<times> 'f option) list"
  | Flagged_reviews "'f row list"

text \<open>Lines 33 to 64; an exception of the aggregation ends the page run.\<close>

definition monthly_ratings_page ::
  "('f list \<Rightarrow> 'f option) \<Rightarrow> 'f::linorder frame \<Rightarrow> error + 'f outcome" where
  "monthly_ratings_page mean df_all =
     (if df_empty df_all then Inr (St_warning ''No valid deduped CSV files found.'')
      else (case chart_data mean df_all of Inl e \<Rightarrow> Inl e | Inr c \<Rightarrow> Inr (Altair_chart c)))"

section \<open>The Management Dashboard page (lines 67 to 86)\<close>

text \<open>Line 73: \<^verbatim>\<open>df_all[df_all["MgmtFlag"] == "Yes"]\<close>.\<close>

definition flagged_rows :: "'f frame \<Rightarrow> 'f row list" where
  "flagged_rows df_all = filter (\<lambda>r. r ''MgmtFlag'' = Str ''Yes'') (rows df_all)"

text \<open>
  Lines 80 and 81: the calendar dates of the earliest and the latest flagged review, the
  bounds and default values of the two date pickers.
\<close>

definition date_column :: "'f row list \<Rightarrow> timestamp list" where
  "date_column rs = List.map_filter (\<lambda>r. case r ''Date'' of Ts t \<Rightarrow> Some t | _ \<Rightarrow> None) rs"

definition min_date :: "'f row list \<Rightarrow> date option" where
  "min_date flagged =
     (case date_column flagged of [] \<Rightarrow> None | t # ts \<Rightarrow> Some (fst (fold min ts t)))"

definition max_date :: "'f row list \<Rightarrow> date option" where
  "max_date flagged =
     (case date_column flagged of [] \<Rightarrow> None | t # ts \<Rightarrow> Some (fst (fold max ts t)))"

text \<open>
  Line 85: \<^verbatim>\<open>pd.to_datetime(from_date)\<close> is midnight of that date; a comparison with a
  missing date is false.
\<close>

definition mask :: "date \<Rightarrow> date \<Rightarrow> 'f row \<Rightarrow> bool" where
  "mask from_date to_date r =
     (case r ''Date'' of Ts t \<Rightarrow> (from_date, 0) \<le> t \<and> t \<le> (to_date, 0) | _ \<Rightarrow> False)"

text \<open>
  Lines 70 to 86, with the dates picked by the user as arguments; the rendering of the
  filtered rows (lines 88 to 98) is not modelled.
\<close>

definition management_dashboard :: "'f frame \<Rightarrow> date \<Rightarrow> date \<Rightarrow> 'f outcome" where
  "management_dashboard df_all from_date to_date =
     (if ''MgmtFlag'' \<notin> set (columns df_all)
      then St_error (''MgmtFlag column not found in your CSVs. Make sure you'' @ [CHR 0x27]
                      @ ''ve re-scraped Ember with the latest script.'')
      else (let flagged = flagged_rows df_all
            in if flagged = []
               then St_success ([CHR 0xE2, CHR 0x9C, CHR 0x85]
                                 @ '' No reviews flagged for management.'')
               else Flagged_reviews (filter (mask from_date to_date) flagged)))"

section \<open>Example data\<close>

text \<open>
  Concrete inputs on which the theorems below are instantiated, with rational numbers for
  the floats. A row is given by its cells. The date parser \<open>ex_to_datetime\<close> knows two
  formats, the date alone and the ISO timestamp, and behaves as pandas 2 does: it takes
  the format of the first value that is not missing for the whole column, so the values
  of the other format become \<^verbatim>\<open>NaT\<close>; when the first value has neither format, every value
  is parsed on its own. The number parser \<open>ex_to_numeric\<close> works value by value. The mean
  \<open>ex_mean\<close> is the exact one, which the float mean equals on the small integers of the
  examples.
\<close>

definition mk_row :: "(string \<times> 'f cell) list \<Rightarrow> 'f row" where
  "mk_row kvs = (\<lambda>c. case map_of kvs c of None \<Rightarrow> NaN | Some v \<Rightarrow> v)"

definition ex_date_only :: "rat cell \<Rightarrow> timestamp option" where
  "ex_date_only c =
     (case c of
        Str s \<Rightarrow>
          (if s = ''2024-01-15'' then Some ((2024, 1, 15), 0)
           else if s = ''2024-03-05'' then Some ((2024, 3, 5), 0)
           else None)
      | _ \<Rightarrow> None)"

definition ex_iso :: "rat cell \<Rightarrow> timestamp option" where
  "ex_iso c =
     (case c of
        Str s \<Rightarrow>
          (if s = ''2024-03-05T14:30:00Z'' then Some ((2024, 3, 5), 52200000000000) else None)
      | _ \<Rightarrow> None)"

definition ex_to_datetime :: "rat cell list \<Rightarrow> nat \<Rightarrow> timestamp option" where
  "ex_to_datetime col i =
     (if \<not> i < length col then None
      else (case filter (\<lambda>c. c \<noteq> NaN) col of
              [] \<Rightarrow> None
            | c # _ \<Rightarrow>
                if ex_date_only c \<noteq> None then ex_date_only (col ! i)
                else if ex_iso c \<noteq> None then ex_iso (col ! i)
                else (case ex_date_only (col ! i) of None \<Rightarrow> ex_iso (col ! i) | Some t \<Rightarrow> Some t)))"

definition ex_to_numeric :: "rat cell list \<Rightarrow> nat \<Rightarrow> rat option" where
  "ex_to_numeric col i =
     (if \<not> i < length col then None
      else (case col ! i of
              Num x \<Rightarrow> Some x
            | Str s \<Rightarrow> (if s = ''4'' then Some 4 else if s = ''5'' then Some 5 else None)
            | _ \<Rightarrow> None))"

definition ex_mean :: "rat list \<Rightarrow> rat option" where
  "ex_mean xs = (if xs = [] then None else Some (sum_list xs / of_nat (length xs)))"

text \<open>
  The frames of the example files:
  \<^item> \<open>ex_no_rating\<close> has no Rating column;
  \<^item> \<open>ex_file\<close> has all columns and dates of one format; its second row has an unparseable
    date and its fourth row an unparseable rating;
  \<^item> \<open>ex_other\<close> has a Title and no MgmtFlag column, and one review, an ISO timestamp;
  \<^item> \<open>ex_unflagged\<close> has one row, with the flag "yes";
  \<^item> \<open>ex_bad_file\<close> has one row, with an unparseable date;
  \<^item> \<open>ex_flagged\<close> has one flagged review, of 5 March 2024, 14:30 UTC;
  \<^item> \<open>ex_mixed\<close> has a date of each format, and \<open>ex_mixed_swapped\<close> has the same two rows
    in the other order.

  In the two aggregates, 24288 is the ordinal of January 2024: brand A with 4 in January
  and 5 in March, and two brands over the same three months.
\<close>

definition ex_no_rating :: "rat frame" where
  "ex_no_rating =
     \<lparr>columns = [''Brand'', ''Date''],
      rows = [mk_row [(''Brand'', Str ''B''), (''Date'', Str ''2024-01-15'')]]\<rparr>"

definition ex_file :: "rat frame" where
  "ex_file =
     \<lparr>columns = [''Brand'', ''Date'', ''Rating'', ''MgmtFlag''],
      rows =
        [mk_row [(''Brand'', Str ''A''), (''Date'', Str ''2024-01-15''), (''Rating'', Str ''4''),
                 (''MgmtFlag'', Str ''No'')],
         mk_row [(''Brand'', Str ''A''), (''Date'', Str ''not a date''), (''Rating'', Str ''5''),
                 (''MgmtFlag'', Str ''Yes'')],
         mk_row [(''Brand'', Str ''A''), (''Date'', Str ''2024-03-05''), (''Rating'', Str ''5''),
                 (''MgmtFlag'', Str ''Yes'')],
         mk_row [(''Brand'', Str ''B''), (''Date'', Str ''2024-03-05''), (''Rating'', Str ''five''),
                 (''MgmtFlag'', NaN)],
         mk_row [(''Brand'', Str ''B''), (''Date'', Str ''2024-01-15''), (''Rating'', Str ''4''),
                 (''MgmtFlag'', NaN)]]\<rparr>"

definition ex_other :: "rat frame" where
  "ex_other =
     \<lparr>columns = [''Date'', ''Brand'', ''Rating'', ''Title''],
      rows = [mk_row [(''Date'', Str ''2024-03-05T14:30:00Z''), (''Brand'', Str ''B''),
                      (''Rating'', Num 5), (''Title'', Str ''Late'')]]\<rparr>"

definition ex_unflagged :: "rat frame" where
  "ex_unflagged =
     \<lparr>columns = [''Brand'', ''Date'', ''Rating'', ''MgmtFlag''],
      rows = [mk_row [(''Brand'', Str ''A''), (''Date'', Str ''2024-01-15''), (''Rating'', Num 4),
                      (''MgmtFlag'', Str ''yes'')]]\<rparr>"

definition ex_bad_file :: "rat frame" where
  "ex_bad_file =
     \<lparr>columns = [''Brand'', ''Date'', ''Rating''],
      rows = [mk_row [(''Brand'', Str ''A''), (''Date'', Str ''not a date''), (''Rating'', Num 4)]]\<rparr>"

definition ex_flagged :: "rat frame" where
  "ex_flagged =
     \<lparr>columns = [''Brand'', ''Date'', ''Rating'', ''MgmtFlag''],
      rows = [mk_row [(''Brand'', Str ''A''), (''Date'', Str ''2024-03-05T14:30:00Z''),
                      (''Rating'', Num 5), (''MgmtFlag'', Str ''Yes'')]]\<rparr>"

definition ex_mixed :: "rat frame" where
  "ex_mixed =
     \<lparr>columns = [''Brand'', ''Date'', ''Rating''],
      rows = [mk_row [(''Brand'', Str ''A''), (''Date'', Str ''2024-01-15''), (''Rating'', Num 4)],
              mk_row [(''Brand'', Str ''A''), (''Date'', Str ''2024-03-05T14:30:00Z''),
                      (''Rating'', Num 5)]]\<rparr>"

definition ex_mixed_swapped :: "rat frame" where
  "ex_mixed_swapped = \<lparr>columns = columns ex_mixed, rows = rev (rows ex_mixed)\<rparr>"

definition ex_monthly :: "(string \<times> int \<times> rat option) list" where
  "ex_monthly = [(''A'', 24288, Some 4), (''A'', 24290, Some 5)]"

definition ex_monthly2 :: "(string \<times> int \<times> rat option) list" where
  "ex_monthly2 = [(''A'', 24290, Some 5), (''B'', 24288, Some 4), (''B'', 24289, Some 3)]"

section \<open>Unfolding rules for evaluation\<close>

lemmas load_defs = load_data_def has_mandatory_def concat_frames_def normalize_def empty_frame_def
  dropna_def assign_def column_def coerce_date_def coerce_rating_def reindex_row_def Let_def

lemmas ex_defs = ex_file_def ex_no_rating_def ex_other_def ex_unflagged_def ex_bad_file_def
  ex_flagged_def ex_mixed_def ex_mixed_swapped_def mk_row_def ex_to_datetime_def ex_date_only_def
  ex_iso_def ex_to_numeric_def

lemmas agg_defs = densify_def pivot_def group_key_def index_min_def index_max_def date_range_def
  reindex_def ffill_def melt_def

lemmas page_defs = monthly_ratings_page_def df_empty_def chart_data_def monthly_avg_def
  groupby_mean_def groupby_def List.map_filter_simps observation_def to_period_M_def ex_mean_def
  less_eq_cell_def less_cell_def

lemmas mgmt_defs = management_dashboard_def flagged_rows_def mask_def min_date_def max_date_def
  date_column_def List.map_filter_simps

section \<open>Properties of loading\<close>

lemma load_loop_append:
  "load_loop dt nm (fs @ gs) acc =
     (case load_loop dt nm fs acc of Inl e \<Rightarrow> Inl e | Inr d \<Rightarrow> load_loop dt nm gs d)"
proof (induction fs arbitrary: acc)
  case Nil
  then show ?case by simp
next
  case (Cons f fs)
  then show ?case by (cases f) simp_all
qed

lemma load_loop_skip_all:
  "\<forall>f \<in> set fs. \<exists>df. f = Table df \<and> \<not> has_mandatory df \<Longrightarrow>
   load_loop dt nm fs acc = Inr acc"
  by (induction fs arbitrary: acc) auto

lemma load_loop_unreadable:
  "load_loop dt nm (map Table dfs @ Unreadable e # hs) acc = Inl e"
  by (induction dfs arbitrary: acc) simp_all

lemma load_loop_Inl:
  "load_loop dt nm fs acc = Inl e \<Longrightarrow> Unreadable e \<in> set fs"
proof (induction fs arbitrary: acc)
  case Nil
  then show ?case by simp
next
  case (Cons f fs)
  then show ?case by (cases f) (auto split: if_splits)
qed

lemma all_tables:
  "\<forall>e. Unreadable e \<notin> set fs \<Longrightarrow> \<exists>dfs. fs = map Table dfs"
proof (induction fs)
  case Nil
  then show ?case by simp
next
  case (Cons f fs)
  then obtain dfs where "fs = map Table dfs" by auto
  moreover from Cons.prems obtain df where "f = Table df" by (cases f) auto
  ultimately have "f # fs = map Table (df # dfs)" by simp
  then show ?case by (rule exI)
qed

lemma reindex_row_idem:
  "set cs \<subseteq> set cs' \<Longrightarrow> reindex_row cs' (reindex_row cs r) = reindex_row cs r"
  by (auto simp: reindex_row_def fun_eq_iff)

lemma column_assign_other:
  "c' \<noteq> c \<Longrightarrow> column c' (assign c v df) = column c' df"
proof -
  assume "c' \<noteq> c"
  then have "column c' (assign c v df) = map (\<lambda>i. (rows df ! i) c') [0..<length (rows df)]"
    by (simp add: column_def assign_def comp_def)
  also have "\<dots> = map (\<lambda>r. r c') (map (\<lambda>i. rows df ! i) [0..<length (rows df)])"
    by (simp add: comp_def)
  also have "\<dots> = column c' df"
    by (simp only: map_nth column_def)
  finally show ?thesis .
qed

lemma columns_normalize:
  "has_mandatory df \<Longrightarrow> columns (normalize dt nm df) = columns df"
  by (simp add: normalize_def assign_def has_mandatory_def Let_def)

lemma coerce_date_NaN [simp]: "coerce_date v = NaN \<longleftrightarrow> v = None"
  by (simp add: coerce_date_def split: option.splits)

lemma coerce_rating_NaN [simp]: "coerce_rating v = NaN \<longleftrightarrow> v = None"
  by (simp add: coerce_rating_def split: option.splits)

text \<open>
  The rows that lines 17 to 19 leave of a file: the rows at the positions where both
  columns parsed, with the parsed values in Date and Rating.
\<close>

lemma rows_normalize:
  "rows (normalize dt nm df) =
     map (\<lambda>i. (rows df ! i)
                (''Date'' := coerce_date (dt (column ''Date'' df) i),
                 ''Rating'' := coerce_rating (nm (column ''Rating'' df) i)))
       (filter (\<lambda>i. dt (column ''Date'' df) i \<noteq> None \<and> nm (column ''Rating'' df) i \<noteq> None)
          [0..<length (rows df)])"
proof -
  let ?n = "length (rows df)"
  let ?d = "\<lambda>i. coerce_date (dt (column ''Date'' df) i) :: 'a cell"
  let ?r = "\<lambda>i. coerce_rating (nm (column ''Rating'' df) i)"
  let ?df1 = "assign ''Date'' ?d df"
  have col: "column ''Rating'' ?df1 = column ''Rating'' df"
    by (rule column_assign_other) simp
  have len: "length (rows ?df1) = ?n" by (simp add: assign_def)
  have row1: "rows ?df1 ! i = (rows df ! i)(''Date'' := ?d i)" if "i < ?n" for i
    using that by (simp add: assign_def)
  have "rows (assign ''Rating'' ?r ?df1)
      = map (\<lambda>i. (rows ?df1 ! i)(''Rating'' := ?r i)) [0..<?n]"
    by (simp add: assign_def)
  also have "\<dots> = map (\<lambda>i. (rows df ! i)(''Date'' := ?d i, ''Rating'' := ?r i)) [0..<?n]"
    by (rule map_cong) (simp_all add: row1)
  finally have rows2: "rows (assign ''Rating'' ?r ?df1)
      = map (\<lambda>i. (rows df ! i)(''Date'' := ?d i, ''Rating'' := ?r i)) [0..<?n]" .
  have "rows (normalize dt nm df) = dropna (rows (assign ''Rating'' ?r ?df1))"
    by (simp add: normalize_def Let_def col)
  also have "\<dots> = dropna (map (\<lambda>i. (rows df ! i)(''Date'' := ?d i, ''Rating'' := ?r i)) [0..<?n])"
    by (simp only: rows2)
  also have "\<dots> = map (\<lambda>i. (rows df ! i)(''Date'' := ?d i, ''Rating'' := ?r i))
        (filter (\<lambda>i. dt (column ''Date'' df) i \<noteq> None \<and> nm (column ''Rating'' df) i \<noteq> None)
           [0..<?n])"
    by (simp add: dropna_def filter_map comp_def)
  finally show ?thesis .
qed

text \<open>What the loop returns on files that can all be read.\<close>

lemma load_loop_tables:
  assumes "\<forall>r \<in> set (rows acc). reindex_row (columns acc) r = r"
  shows "\<exists>d. load_loop dt nm (map Table dfs) acc = Inr d
     \<and> rows d = rows acc @ concat (map (\<lambda>df. map (reindex_row (columns df)) (rows (normalize dt nm df)))
                                    (filter has_mandatory dfs))
     \<and> set (columns d) = set (columns acc) \<union> (\<Union>df \<in> {df \<in> set dfs. has_mandatory df}. set (columns df))"
  using assms
proof (induction dfs arbitrary: acc)
  case Nil
  then show ?case by simp
next
  case (Cons df dfs)
  show ?case
  proof (cases "has_mandatory df")
    case False
    with Cons.IH [OF Cons.prems] show ?thesis by auto
  next
    case True
    let ?acc = "concat_frames acc (normalize dt nm df)"
    have keep: "map (reindex_row (columns acc)) (rows acc) = rows acc"
      using Cons.prems by (simp add: map_idI)
    have inv: "\<forall>r \<in> set (rows ?acc). reindex_row (columns ?acc) r = r"
    proof
      fix r assume "r \<in> set (rows ?acc)"
      then obtain cs r0 where r: "r = reindex_row cs r0" and cs: "set cs \<subseteq> set (columns ?acc)"
        by (auto simp: concat_frames_def)
      show "reindex_row (columns ?acc) r = r"
        unfolding r by (rule reindex_row_idem [OF cs])
    qed
    from Cons.IH [OF inv] obtain d where d: "load_loop dt nm (map Table dfs) ?acc = Inr d"
      "rows d = rows ?acc @ concat (map (\<lambda>df. map (reindex_row (columns df)) (rows (normalize dt nm df)))
                                    (filter has_mandatory dfs))"
      "set (columns d) = set (columns ?acc) \<union> (\<Union>df \<in> {df \<in> set dfs. has_mandatory df}. set (columns df))"
      by blast
    have r: "rows ?acc = rows acc @ map (reindex_row (columns df)) (rows (normalize dt nm df))"
      using keep by (simp add: concat_frames_def columns_normalize [OF True])
    have c: "set (columns ?acc) = set (columns acc) \<union> set (columns df)"
      by (auto simp: concat_frames_def columns_normalize [OF True])
    have "load_loop dt nm (map Table (df # dfs)) acc = Inr d"
      using True d(1) by simp
    moreover have "rows d = rows acc @ concat (map (\<lambda>df. map (reindex_row (columns df))
        (rows (normalize dt nm df))) (filter has_mandatory (df # dfs)))"
      using True d(2) r by simp
    moreover have "set (columns d) = set (columns acc)
        \<union> (\<Union>df \<in> {df' \<in> set (df # dfs). has_mandatory df'}. set (columns df))"
      using True d(3) c by auto
    ultimately show ?thesis by blast
  qed
qed

lemma load_data_tables:
  "\<exists>d. load_data dt nm (map Table dfs) = Inr d
     \<and> rows d = concat (map (\<lambda>df. map (reindex_row (columns df)) (rows (normalize dt nm df)))
                         (filter has_mandatory dfs))
     \<and> set (columns d) = (\<Union>df \<in> {df \<in> set dfs. has_mandatory df}. set (columns df))"
  using load_loop_tables [of empty_frame dt nm dfs]
  by (simp add: load_data_def empty_frame_def)

lemma load_data_Inl: "load_data dt nm fs = Inl e \<Longrightarrow> Unreadable e \<in> set fs"
  unfolding load_data_def by (rule load_loop_Inl)

lemma load_data_Inr:
  assumes "load_data dt nm fs = Inr d"
  shows "\<exists>dfs. fs = map Table dfs
     \<and> rows d = concat (map (\<lambda>df. map (reindex_row (columns df)) (rows (normalize dt nm df)))
                         (filter has_mandatory dfs))
     \<and> set (columns d) = (\<Union>df \<in> {df \<in> set dfs. has_mandatory df}. set (columns df))"
proof -
  have "\<forall>e. Unreadable e \<notin> set fs"
  proof (intro allI notI)
    fix e assume "Unreadable e \<in> set fs"
    then obtain gs hs where "fs = gs @ Unreadable e # hs" by (auto simp: in_set_conv_decomp)
    then show False
      using assms
      by (auto simp: load_data_def load_loop_append split: sum.splits)
  qed
  then obtain dfs where dfs: "fs = map Table dfs" using all_tables by blast
  with load_data_tables [of dt nm dfs] assms show ?thesis by auto
qed

text \<open>Every row of a loaded dataset has a timestamp in Date and a number in Rating.\<close>

lemma load_data_typed:
  assumes "load_data dt nm fs = Inr d" and "r \<in> set (rows d)"
  shows "(\<exists>t. r ''Date'' = Ts t) \<and> (\<exists>x. r ''Rating'' = Num x)"
proof -
  from load_data_Inr [OF assms(1)] obtain dfs where
    "rows d = concat (map (\<lambda>df. map (reindex_row (columns df)) (rows (normalize dt nm df)))
                         (filter has_mandatory dfs))"
    by blast
  with assms(2) obtain df r0 where df: "has_mandatory df"
    and r0: "r0 \<in> set (rows (normalize dt nm df))" and r: "r = reindex_row (columns df) r0"
    by auto
  from r0 obtain t x where "r0 ''Date'' = Ts t" "r0 ''Rating'' = Num x"
    by (auto simp: rows_normalize coerce_date_def coerce_rating_def)
  with df show ?thesis
    unfolding r by (simp add: reindex_row_def has_mandatory_def)
qed

lemma load_data_mset_rows:
  assumes "load_data dt nm (map Table dfs) = Inr d"
  shows "mset (rows d) =
     (\<Sum>df \<in># mset dfs. if has_mandatory df
        then mset (map (reindex_row (columns df)) (rows (normalize dt nm df))) else {#})"
proof -
  have "mset (concat (map (\<lambda>df. map (reindex_row (columns df)) (rows (normalize dt nm df)))
                         (filter has_mandatory hs)))
      = (\<Sum>df \<in># mset hs. if has_mandatory df
        then mset (map (reindex_row (columns df)) (rows (normalize dt nm df))) else {#})" for hs
    by (induction hs) simp_all
  with load_data_tables [of dt nm dfs] assms show ?thesis by auto
qed

text \<open>The same files in another order: the same rows up to order, the same columns.\<close>

lemma load_data_perm:
  assumes "mset fs = mset gs" and "load_data dt nm fs = Inr a"
  shows "\<exists>b. load_data dt nm gs = Inr b \<and> mset (rows a) = mset (rows b)
     \<and> set (columns a) = set (columns b)"
proof -
  from load_data_Inr [OF assms(2)] obtain dfs where fs: "fs = map Table dfs"
    and ca: "set (columns a) = (\<Union>df \<in> {df \<in> set dfs. has_mandatory df}. set (columns df))"
    by blast
  have "set gs = set fs" using assms(1) by (metis mset_eq_setD)
  then have "\<forall>e. Unreadable e \<notin> set gs" using fs by auto
  then obtain dfs' where gs: "gs = map Table dfs'" using all_tables by blast
  have "image_mset Table (mset dfs) = image_mset Table (mset dfs')"
    using assms(1) fs gs by simp
  moreover have "inj (Table :: 'a frame \<Rightarrow> 'a csv_file)" by (simp add: inj_def)
  ultimately have m: "mset dfs = mset dfs'"
    by (metis multiset.inj_map injD)
  from load_data_tables [of dt nm dfs'] obtain b where b: "load_data dt nm gs = Inr b"
    and cb: "set (columns b) = (\<Union>df \<in> {df \<in> set dfs'. has_mandatory df}. set (columns df))"
    unfolding gs by blast
  have "mset (rows a) = mset (rows b)"
    using load_data_mset_rows [of dt nm dfs a] load_data_mset_rows [of dt nm dfs' b]
      assms(2) b m fs gs by simp
  moreover have "set dfs = set dfs'" using m by (metis mset_eq_setD)
  then have "set (columns a) = set (columns b)" using ca cb by simp
  ultimately show ?thesis using b by blast
qed

text \<open>
  Claim C3 says that loading never raises when no file has the three mandatory columns.
  A file of zero bytes has no column at all, and \<^verbatim>\<open>read_csv\<close> at line 14 raises
  \<^verbatim>\<open>EmptyDataError\<close> on it before the column check of line 15 is reached: loading that
  file alone, or after a file that lacks the Rating column, raises.
\<close>

theorem unreadable_file_raises:
  "read_csv (Unreadable EmptyDataError :: rat csv_file) = Inl EmptyDataError
   \<and> load_data ex_to_datetime ex_to_numeric [Unreadable EmptyDataError] = Inl EmptyDataError
   \<and> \<not> has_mandatory ex_no_rating
   \<and> load_data ex_to_datetime ex_to_numeric [Table ex_no_rating, Unreadable EmptyDataError]
       = Inl EmptyDataError"
  by (simp add: load_defs ex_defs)

text \<open>
  Claim C3, amended. When every input file can be read and none has all of the columns
  Brand, Date and Rating, the loaded dataset is the empty frame and nothing is raised; a
  file that can be read and lacks one of the three columns contributes nothing, wherever it
  stands among the input files; and a file that cannot be read makes loading raise the
  error of \<^verbatim>\<open>read_csv\<close>, whatever its columns would be, once the files before it are read.
\<close>

theorem load_data_no_mandatory:
  "((\<forall>f \<in> set fs. \<exists>df. f = Table df \<and> \<not> has_mandatory df) \<longrightarrow>
      load_data dt nm fs = Inr empty_frame)
   \<and> (\<not> has_mandatory df \<longrightarrow>
        load_data dt nm (gs @ Table df # hs) = load_data dt nm (gs @ hs))
   \<and> load_data dt nm (map Table dfs @ Unreadable e # hs) = Inl e"
proof -
  have "(\<forall>f \<in> set fs. \<exists>df. f = Table df \<and> \<not> has_mandatory df) \<longrightarrow>
      load_data dt nm fs = Inr empty_frame"
    by (simp add: load_data_def load_loop_skip_all)
  moreover have "\<not> has_mandatory df \<longrightarrow>
      load_data dt nm (gs @ Table df # hs) = load_data dt nm (gs @ hs)"
    by (simp add: load_data_def load_loop_append split: sum.splits)
  moreover have "load_data dt nm (map Table dfs @ Unreadable e # hs) = Inl e"
    by (simp add: load_data_def load_loop_unreadable)
  ultimately show ?thesis by blast
qed

theorem load_data_no_mandatory_witness:
  "\<not> has_mandatory ex_no_rating
   \<and> load_data ex_to_datetime ex_to_numeric [Table ex_no_rating] = Inr empty_frame
   \<and> load_data ex_to_datetime ex_to_numeric ([Table ex_file] @ Table ex_no_rating # [])
       = load_data ex_to_datetime ex_to_numeric ([Table ex_file] @ [])
   \<and> load_data ex_to_datetime ex_to_numeric (map Table [ex_file] @ Unreadable ParserError # [])
       = Inl ParserError"
proof -
  have h: "\<not> has_mandatory ex_no_rating"
    by (simp add: has_mandatory_def ex_no_rating_def)
  from load_data_no_mandatory [of "[Table ex_no_rating]" ex_to_datetime ex_to_numeric
      ex_no_rating "[Table ex_file]" "[]" "[ex_file]" ParserError] h
  show ?thesis by simp
qed



text \<open>
  Claim C8. Loading is a function of the files alone (the model has no state to change),
  and the order in which \<^verbatim>\<open>glob\<close> lists the same files does not matter: two runs over
  the same files either both raise or yield the same rows up to order and the same set of
  columns.
\<close>

theorem load_data_order_irrelevant:
  assumes "mset fs = mset gs"
  shows "(\<forall>a. load_data dt nm fs = Inr a \<longrightarrow>
            (\<exists>b. load_data dt nm gs = Inr b \<and> mset (rows a) = mset (rows b)
                \<and> set (columns a) = set (columns b)))
         \<and> ((\<exists>e. load_data dt nm fs = Inl e) \<longleftrightarrow> (\<exists>e. load_data dt nm gs = Inl e))"
proof -
  have 1: "\<exists>b. load_data dt nm gs = Inr b \<and> mset (rows a) = mset (rows b)
                \<and> set (columns a) = set (columns b)" if "load_data dt nm fs = Inr a" for a
    using assms that by (rule load_data_perm)
  have 2: "\<exists>b. load_data dt nm fs = Inr b" if "load_data dt nm gs = Inr a" for a
    using load_data_perm [OF assms [symmetric] that] by blast
  have "(\<exists>e. load_data dt nm fs = Inl e) \<longleftrightarrow> (\<exists>e. load_data dt nm gs = Inl e)"
    using 1 2 by (metis sum.exhaust sum.distinct(1))
  with 1 show ?thesis by blast
qed

theorem load_data_order_irrelevant_witness:
  "mset [Table ex_file, Table ex_other] = mset [Table ex_other, Table ex_file]
   \<and> map_sum id (\<lambda>d. map (\<lambda>r. r ''Brand'') (rows d))
        (load_data ex_to_datetime ex_to_numeric [Table ex_file, Table ex_other])
       = Inr [Str ''A'', Str ''A'', Str ''B'', Str ''B'']
   \<and> map_sum id (\<lambda>d. map (\<lambda>r. r ''Brand'') (rows d))
        (load_data ex_to_datetime ex_to_numeric [Table ex_other, Table ex_file])
       = Inr [Str ''B'', Str ''A'', Str ''A'', Str ''B'']
   \<and> map_sum id (\<lambda>d. set (columns d))
        (load_data ex_to_datetime ex_to_numeric [Table ex_file, Table ex_other])
       = map_sum id (\<lambda>d. set (columns d))
        (load_data ex_to_datetime ex_to_numeric [Table ex_other, Table ex_file])"
proof -
  have p: "mset [Table ex_file, Table ex_other] = mset [Table ex_other, Table ex_file]" by simp
  have a: "map_sum id (\<lambda>d. map (\<lambda>r. r ''Brand'') (rows d))
        (load_data ex_to_datetime ex_to_numeric [Table ex_file, Table ex_other])
       = Inr [Str ''A'', Str ''A'', Str ''B'', Str ''B'']"
    by (simp add: load_defs ex_defs upt_rec [of _ "numeral _"] upt_rec [of 0])
  have b: "map_sum id (\<lambda>d. map (\<lambda>r. r ''Brand'') (rows d))
        (load_data ex_to_datetime ex_to_numeric [Table ex_other, Table ex_file])
       = Inr [Str ''B'', Str ''A'', Str ''A'', Str ''B'']"
    by (simp add: load_defs ex_defs upt_rec [of _ "numeral _"] upt_rec [of 0])
  from a obtain d where d: "load_data ex_to_datetime ex_to_numeric [Table ex_file, Table ex_other] = Inr d"
    by (cases "load_data ex_to_datetime ex_to_numeric [Table ex_file, Table ex_other]") auto
  from load_data_order_irrelevant [OF p, of ex_to_datetime ex_to_numeric] d
  obtain d' where "load_data ex_to_datetime ex_to_numeric [Table ex_other, Table ex_file] = Inr d'"
    and "set (columns d) = set (columns d')" by blast
  with d p a b show ?thesis by simp
qed

section \<open>Properties of the monthly aggregation\<close>




lemma groupby_keys: "map fst (groupby obs) = sort (remdups (map group_key obs))"
  by (simp add: groupby_def comp_def)


lemma groupby_mean_distinct: "distinct (map group_key (groupby_mean mean obs))"
proof -
  have "map group_key (groupby_mean mean obs) = map fst (groupby obs)"
    by (simp add: groupby_mean_def group_key_def comp_def split_def)
  then show ?thesis by (simp add: groupby_keys)
qed







section \<open>Properties of the dense series\<close>

lemma ffill_from_length [simp]: "length (ffill_from p xs) = length xs"
  by (induction p xs rule: ffill_from.induct) simp_all

lemma ffill_from_nth:
  "k < length xs \<Longrightarrow>
     (ffill_from p xs ! k = p \<and> (\<forall>j\<le>k. xs ! j = None))
   \<or> (\<exists>j\<le>k. \<exists>x. xs ! j = Some x \<and> ffill_from p xs ! k = Some x
                \<and> (\<forall>i. j < i \<and> i \<le> k \<longrightarrow> xs ! i = None))"
proof (induction p xs arbitrary: k rule: ffill_from.induct)
  case (1 prev)
  then show ?case by simp
next
  case (2 prev vs)
  show ?case
  proof (cases k)
    case 0
    then show ?thesis by simp
  next
    case (Suc k')
    with 2 have "k' < length vs" by simp
    from "2.IH" [OF this] show ?thesis
    proof
      assume a: "ffill_from prev vs ! k' = prev \<and> (\<forall>j\<le>k'. vs ! j = None)"
      then have "\<forall>j\<le>k. (None # vs) ! j = None"
        using Suc by (auto simp: nth_Cons split: nat.splits)
      with a Suc show ?thesis by simp
    next
      assume "\<exists>j\<le>k'. \<exists>x. vs ! j = Some x \<and> ffill_from prev vs ! k' = Some x
                \<and> (\<forall>i. j < i \<and> i \<le> k' \<longrightarrow> vs ! i = None)"
      then obtain j x where j: "j \<le> k'" "vs ! j = Some x" "ffill_from prev vs ! k' = Some x"
        "\<forall>i. j < i \<and> i \<le> k' \<longrightarrow> vs ! i = None" by blast
      have "\<forall>i. Suc j < i \<and> i \<le> k \<longrightarrow> (None # vs) ! i = None"
        using j(4) Suc by (auto simp: nth_Cons split: nat.splits)
      with j Suc have "Suc j \<le> k \<and> (None # vs) ! Suc j = Some x
          \<and> ffill_from prev (None # vs) ! k = Some x
          \<and> (\<forall>i. Suc j < i \<and> i \<le> k \<longrightarrow> (None # vs) ! i = None)" by simp
      then show ?thesis by blast
    qed
  qed
next
  case (3 prev v vs)
  show ?case
  proof (cases k)
    case 0
    then show ?thesis by simp
  next
    case (Suc k')
    with 3 have "k' < length vs" by simp
    from "3.IH" [OF this] show ?thesis
    proof
      assume a: "ffill_from (Some v) vs ! k' = Some v \<and> (\<forall>j\<le>k'. vs ! j = None)"
      then have "\<forall>i. 0 < i \<and> i \<le> k \<longrightarrow> (Some v # vs) ! i = None"
        using Suc by (auto simp: nth_Cons split: nat.splits)
      with a Suc have "0 \<le> k \<and> (Some v # vs) ! 0 = Some v
          \<and> ffill_from prev (Some v # vs) ! k = Some v
          \<and> (\<forall>i. 0 < i \<and> i \<le> k \<longrightarrow> (Some v # vs) ! i = None)" by simp
      then show ?thesis by blast
    next
      assume "\<exists>j\<le>k'. \<exists>x. vs ! j = Some x \<and> ffill_from (Some v) vs ! k' = Some x
                \<and> (\<forall>i. j < i \<and> i \<le> k' \<longrightarrow> vs ! i = None)"
      then obtain j x where j: "j \<le> k'" "vs ! j = Some x" "ffill_from (Some v) vs ! k' = Some x"
        "\<forall>i. j < i \<and> i \<le> k' \<longrightarrow> vs ! i = None" by blast
      have "\<forall>i. Suc j < i \<and> i \<le> k \<longrightarrow> (Some v # vs) ! i = None"
        using j(4) Suc by (auto simp: nth_Cons split: nat.splits)
      with j Suc have "Suc j \<le> k \<and> (Some v # vs) ! Suc j = Some x
          \<and> ffill_from prev (Some v # vs) ! k = Some x
          \<and> (\<forall>i. Suc j < i \<and> i \<le> k \<longrightarrow> (Some v # vs) ! i = None)" by simp
      then show ?thesis by blast
    qed
  qed
qed

lemma index_min_eq: "idx \<noteq> [] \<Longrightarrow> index_min idx = Some (Min (set idx))"
proof (cases idx)
  case (Cons m ms)
  then show ?thesis unfolding index_min_def by (simp only: list.case Min.set_eq_fold)
qed simp

lemma index_max_eq: "idx \<noteq> [] \<Longrightarrow> index_max idx = Some (Max (set idx))"
proof (cases idx)
  case (Cons m ms)
  then show ?thesis unfolding index_max_def by (simp only: list.case Max.set_eq_fold)
qed simp

lemma reindex_value:
  "(case map_of (zip idx (map g idx)) m of None \<Rightarrow> None | Some v \<Rightarrow> v)
     = (if m \<in> set idx then g m else None)"
  by (simp add: map_of_zip_map)

lemma map_of_keys_None:
  "m \<notin> (\<lambda>ob. fst (snd ob)) ` set monthly \<Longrightarrow>
   map_of (map (\<lambda>ob. (group_key ob, snd (snd ob))) monthly) (b, m) = None"
  by (force simp: map_of_eq_None_iff group_key_def image_iff)

lemma densify_char:
  assumes ne: "monthly \<noteq> []" and d: "distinct (map group_key monthly)"
  shows "densify monthly =
     Inr (concat (map (\<lambda>b. map (\<lambda>(m, v). (m, b, v))
            (zip [Min ((\<lambda>ob. fst (snd ob)) ` set monthly) .. Max ((\<lambda>ob. fst (snd ob)) ` set monthly)]
               (ffill_from None
                  (map (\<lambda>m. case map_of (map (\<lambda>ob. (group_key ob, snd (snd ob))) monthly) (b, m) of
                             None \<Rightarrow> None | Some v \<Rightarrow> v)
                     [Min ((\<lambda>ob. fst (snd ob)) ` set monthly) .. Max ((\<lambda>ob. fst (snd ob)) ` set monthly)]))))
          (sort (remdups (map fst monthly)))))"
proof -
  let ?idx = "sort (remdups (map (\<lambda>ob. fst (snd ob)) monthly))"
  have "set ?idx \<noteq> {}" using ne by simp
  then have idx_ne: "?idx \<noteq> []" by (simp only: set_empty not_False_eq_True)
  have set_idx: "set ?idx = (\<lambda>ob. fst (snd ob)) ` set monthly" by simp
  have val: "(if m \<in> (\<lambda>ob. fst (snd ob)) ` set monthly
        then case map_of (map (\<lambda>ob. (group_key ob, snd (snd ob))) monthly) (b, m) of
               None \<Rightarrow> None | Some v \<Rightarrow> v
        else None)
      = (case map_of (map (\<lambda>ob. (group_key ob, snd (snd ob))) monthly) (b, m) of
           None \<Rightarrow> None | Some v \<Rightarrow> v)" for b m
    using map_of_keys_None [of m monthly b] by auto
  show ?thesis
    using d
    by (simp add: densify_def pivot_def index_min_eq [OF idx_ne] index_max_eq [OF idx_ne]
        date_range_def reindex_def ffill_def melt_def comp_def reindex_value val)
qed

lemma agg_lookup_None:
  assumes "distinct (map group_key monthly)"
  shows "(case map_of (map (\<lambda>ob. (group_key ob, snd (snd ob))) monthly) (b, m) of
            None \<Rightarrow> None | Some v \<Rightarrow> v) = None
     \<longleftrightarrow> (\<forall>x. (b, m, Some x) \<notin> set monthly)"
proof -
  let ?kvs = "map (\<lambda>ob. (group_key ob, snd (snd ob))) monthly"
  have d: "distinct (map fst ?kvs)" using assms by (simp add: comp_def)
  have in_iff: "((b, m), v) \<in> set ?kvs \<longleftrightarrow> (b, m, v) \<in> set monthly" for v
    by (force simp: group_key_def image_iff)
  have eq: "map_of ?kvs (b, m) = Some v \<longleftrightarrow> (b, m, v) \<in> set monthly" for v
    using map_of_eq_Some_iff [OF d] in_iff by blast
  show ?thesis
  proof
    assume none: "(case map_of ?kvs (b, m) of None \<Rightarrow> None | Some v \<Rightarrow> v) = None"
    show "\<forall>x. (b, m, Some x) \<notin> set monthly"
    proof (intro allI notI)
      fix x assume "(b, m, Some x) \<in> set monthly"
      then have "map_of ?kvs (b, m) = Some (Some x)" using eq by blast
      with none show False by simp
    qed
  next
    assume no: "\<forall>x. (b, m, Some x) \<notin> set monthly"
    show "(case map_of ?kvs (b, m) of None \<Rightarrow> None | Some v \<Rightarrow> v) = None"
    proof (cases "map_of ?kvs (b, m)")
      case None
      then show ?thesis by simp
    next
      case (Some v)
      then have "(b, m, v) \<in> set monthly" using eq by blast
      with no have "v = None" by (cases v) auto
      with Some show ?thesis by simp
    qed
  qed
qed

lemma agg_lookup_Some:
  "(case map_of (map (\<lambda>ob. (group_key ob, snd (snd ob))) monthly) (b, m) of
      None \<Rightarrow> None | Some v \<Rightarrow> v) = Some x
     \<Longrightarrow> (b, m, Some x) \<in> set monthly"
  by (auto dest!: map_of_SomeD simp: group_key_def split: option.splits)

lemma concat_single:
  "distinct bs \<Longrightarrow> b \<in> set bs \<Longrightarrow>
   concat (map (\<lambda>b'. if b' = b then F b' else []) bs) = F b"
  by (induction bs) auto

lemma concat_none: "b \<notin> set bs \<Longrightarrow> concat (map (\<lambda>b'. if b' = b then F b' else []) bs) = []"
  by (induction bs) auto

lemma upto3: "[j..j + 2] = [j, j + 1, j + 2]"
proof -
  have "[j..j + 2] = j # [j + 1..j + 2]" by (simp add: upto_rec1)
  also have "[j + 1..j + 2] = (j + 1) # [j + 2..j + 2]" by (simp add: upto_rec1)
  finally show ?thesis by simp
qed

text \<open>
  Claim C4. For a non-empty aggregate (one value per brand and month), the dense series has
  one row per month of the global range and brand: its length is the number of months from
  the least to the greatest month of all brands times the number of brands, and the months
  of every brand's rows are the whole global range.
\<close>

theorem densify_row_count:
  assumes ne: "monthly \<noteq> []" and d: "distinct (map group_key monthly)"
  shows "\<exists>chart. densify monthly = Inr chart
     \<and> length chart =
         nat (Max ((\<lambda>ob. fst (snd ob)) ` set monthly) - Min ((\<lambda>ob. fst (snd ob)) ` set monthly) + 1)
           * card (fst ` set monthly)
     \<and> (\<forall>b \<in> fst ` set monthly.
          map fst (filter (\<lambda>(m, b', v). b' = b) chart)
            = [Min ((\<lambda>ob. fst (snd ob)) ` set monthly) .. Max ((\<lambda>ob. fst (snd ob)) ` set monthly)])"
proof -
  let ?lo = "Min ((\<lambda>ob. fst (snd ob)) ` set monthly)"
  let ?hi = "Max ((\<lambda>ob. fst (snd ob)) ` set monthly)"
  let ?bs = "sort (remdups (map fst monthly))"
  let ?col = "\<lambda>b. ffill_from None
      (map (\<lambda>m. case map_of (map (\<lambda>ob. (group_key ob, snd (snd ob))) monthly) (b, m) of
                  None \<Rightarrow> None | Some v \<Rightarrow> v) [?lo..?hi])"
  let ?F = "\<lambda>b. map (\<lambda>(m, v). (m, b, v)) (zip [?lo..?hi] (?col b))"
  let ?chart = "concat (map ?F ?bs)"
  have eq: "densify monthly = Inr ?chart" by (rule densify_char [OF ne d])
  have len: "length ?chart = nat (?hi - ?lo + 1) * card (fst ` set monthly)"
    by (simp add: length_concat comp_def sum_list_triv length_remdups_card_conv)
  have series: "map fst (filter (\<lambda>(m, b', v). b' = b) ?chart) = [?lo..?hi]"
    if "b \<in> fst ` set monthly" for b
  proof -
    have "filter (\<lambda>(m, b', v). b' = b) (?F b') = (if b' = b then ?F b' else [])" for b'
      by (auto simp: filter_map comp_def split_def)
    then have "filter (\<lambda>(m, b', v). b' = b) ?chart
        = concat (map (\<lambda>b'. if b' = b then ?F b' else []) ?bs)"
      by (simp add: filter_concat comp_def)
    also have "\<dots> = ?F b"
      using that by (intro concat_single) auto
    finally show ?thesis by (simp add: comp_def split_def map_fst_zip)
  qed
  from eq len series show ?thesis by blast
qed

theorem densify_row_count_witness:
  "ex_monthly2 \<noteq> [] \<and> distinct (map group_key ex_monthly2)
   \<and> densify ex_monthly2
       = Inr [(24288, ''A'', None), (24289, ''A'', None), (24290, ''A'', Some 5),
              (24288, ''B'', Some 4), (24289, ''B'', Some 3), (24290, ''B'', Some 3)]
   \<and> nat (Max ((\<lambda>ob. fst (snd ob)) ` set ex_monthly2) - Min ((\<lambda>ob. fst (snd ob)) ` set ex_monthly2) + 1)
       * card (fst ` set ex_monthly2) = 6"
proof -
  have ne: "ex_monthly2 \<noteq> []" by (simp add: ex_monthly2_def)
  have d: "distinct (map group_key ex_monthly2)" by (simp add: ex_monthly2_def group_key_def)
  have ev: "densify ex_monthly2
       = Inr [(24288, ''A'', None), (24289, ''A'', None), (24290, ''A'', Some 5),
              (24288, ''B'', Some 4), (24289, ''B'', Some 3), (24290, ''B'', Some 3)]"
    by (simp add: ex_monthly2_def agg_defs)
  from densify_row_count [OF ne d] ev
  have "nat (Max ((\<lambda>ob. fst (snd ob)) ` set ex_monthly2) - Min ((\<lambda>ob. fst (snd ob)) ` set ex_monthly2) + 1)
       * card (fst ` set ex_monthly2) = 6"
    by auto
  with ne d ev show ?thesis by blast
qed

text \<open>
  Claim C1. In the dense series of a non-empty aggregate, the value of a brand at a month is
  the brand's own value at the nearest month at or before it that the brand has a value
  for (so a month the brand has no value for takes the value of the nearest earlier one),
  and it is missing exactly when the brand has no value at or before that month; no value
  comes from another brand. In particular a brand with one value in January and another
  in March, and nothing else, gets the January value in January and February and the March
  value in March (with 4 and 5: January 4, February 4, March 5). A group whose mean is
  \<^verbatim>\<open>NaN\<close> counts as a month without a value.
\<close>

theorem densify_forward_fill:
  assumes ne: "monthly \<noteq> []" and d: "distinct (map group_key monthly)"
  shows "\<exists>chart. densify monthly = Inr chart
     \<and> (\<forall>(m, b, v) \<in> set chart.
          case v of
            None \<Rightarrow> \<forall>m' x. (b, m', Some x) \<in> set monthly \<longrightarrow> m < m'
          | Some x \<Rightarrow>
              \<exists>m'\<le>m. (b, m', Some x) \<in> set monthly
                \<and> (\<forall>m'' y. m' < m'' \<and> m'' \<le> m \<longrightarrow> (b, m'', Some y) \<notin> set monthly))
     \<and> densify [(brand, jan, Some u), (brand, jan + 2, Some w)]
         = Inr [(jan, brand, Some u), (jan + 1, brand, Some u), (jan + 2, brand, Some w)]"
proof -
  let ?lo = "Min ((\<lambda>ob. fst (snd ob)) ` set monthly)"
  let ?hi = "Max ((\<lambda>ob. fst (snd ob)) ` set monthly)"
  let ?bs = "sort (remdups (map fst monthly))"
  let ?M = "\<lambda>k. case map_of (map (\<lambda>ob. (group_key ob, snd (snd ob))) monthly) k of
              None \<Rightarrow> None | Some v \<Rightarrow> v"
  let ?xs = "\<lambda>b. map (\<lambda>m. ?M (b, m)) [?lo..?hi]"
  let ?F = "\<lambda>b. map (\<lambda>(m, v). (m, b, v)) (zip [?lo..?hi] (ffill_from None (?xs b)))"
  let ?chart = "concat (map ?F ?bs)"
  have eq: "densify monthly = Inr ?chart" by (rule densify_char [OF ne d])
  have lo: "?lo \<le> m'" if "(b, m', x) \<in> set monthly" for b m' x
    using that by (intro Min_le) (auto simp: image_iff intro!: bexI [of _ "(b, m', x)"])
  have row: "case v of
            None \<Rightarrow> \<forall>m' x. (b, m', Some x) \<in> set monthly \<longrightarrow> m < m'
          | Some x \<Rightarrow>
              \<exists>m'\<le>m. (b, m', Some x) \<in> set monthly
                \<and> (\<forall>m'' y. m' < m'' \<and> m'' \<le> m \<longrightarrow> (b, m'', Some y) \<notin> set monthly)"
    if "(m, b, v) \<in> set ?chart" for m b v
  proof -
    from that have "(m, v) \<in> set (zip [?lo..?hi] (ffill_from None (?xs b)))"
      by auto
    then obtain k where k: "k < length [?lo..?hi]" "[?lo..?hi] ! k = m"
      "ffill_from None (?xs b) ! k = v"
      by (auto simp: in_set_zip)
    have kb: "?lo + int k \<le> ?hi" using k(1) by simp
    have nth: "[?lo..?hi] ! j = ?lo + int j" if "j \<le> k" for j
      using that kb by (intro nth_upto) simp
    have m: "m = ?lo + int k" using k(2) nth [of k] by simp
    have xs: "?xs b ! j = ?M (b, ?lo + int j)" if "j \<le> k" for j
      using that k(1) nth [OF that] by simp
    have "k < length (?xs b)" using k(1) by simp
    from ffill_from_nth [OF this, of None] show ?thesis
    proof
      assume a: "ffill_from None (?xs b) ! k = None \<and> (\<forall>j\<le>k. ?xs b ! j = None)"
      have "m < m'" if in_m: "(b, m', Some x) \<in> set monthly" for m' x
      proof (rule ccontr)
        assume "\<not> m < m'"
        with lo [OF in_m] m have j: "nat (m' - ?lo) \<le> k" "?lo + int (nat (m' - ?lo)) = m'"
          by simp_all
        from a j(1) have "?xs b ! nat (m' - ?lo) = None" by blast
        with xs [OF j(1)] j(2) have "?M (b, m') = None" by simp
        with in_m show False by (simp add: agg_lookup_None [OF d])
      qed
      with a k(3) show ?thesis by simp
    next
      assume "\<exists>j\<le>k. \<exists>x. ?xs b ! j = Some x \<and> ffill_from None (?xs b) ! k = Some x
          \<and> (\<forall>i. j < i \<and> i \<le> k \<longrightarrow> ?xs b ! i = None)"
      then obtain j x where j: "j \<le> k" "?xs b ! j = Some x"
        "ffill_from None (?xs b) ! k = Some x"
        "\<forall>i. j < i \<and> i \<le> k \<longrightarrow> ?xs b ! i = None" by blast
      from j(1,2) xs have "?M (b, ?lo + int j) = Some x" by simp
      then have src: "(b, ?lo + int j, Some x) \<in> set monthly" by (rule agg_lookup_Some)
      have none: "(b, m'', Some y) \<notin> set monthly" if "?lo + int j < m''" "m'' \<le> m" for m'' y
      proof -
        from that m have i: "j < nat (m'' - ?lo)" "nat (m'' - ?lo) \<le> k"
          "?lo + int (nat (m'' - ?lo)) = m''" by simp_all
        from j(4) i(1,2) have "?xs b ! nat (m'' - ?lo) = None" by blast
        with xs [OF i(2)] i(3) have "?M (b, m'') = None" by simp
        then show ?thesis by (simp add: agg_lookup_None [OF d])
      qed
      have "?lo + int j \<le> m" using j(1) m by simp
      with src none j(3) k(3) show ?thesis by auto
    qed
  qed
  have jan_mar: "densify [(brand, jan, Some u), (brand, jan + 2, Some w)]
         = Inr [(jan, brand, Some u), (jan + 1, brand, Some u), (jan + 2, brand, Some w)]"
    by (simp add: agg_defs upto3)
  from eq row jan_mar show ?thesis by blast
qed

theorem densify_forward_fill_witness:
  "ex_monthly \<noteq> [] \<and> distinct (map group_key ex_monthly)
   \<and> densify ex_monthly = Inr [(24288, ''A'', Some 4), (24289, ''A'', Some 4), (24290, ''A'', Some 5)]
   \<and> (\<exists>m'\<le>24289. (''A'', m', Some 4) \<in> set ex_monthly)"
proof -
  have ne: "ex_monthly \<noteq> []" by (simp add: ex_monthly_def)
  have d: "distinct (map group_key ex_monthly)" by (simp add: ex_monthly_def group_key_def)
  have ev: "densify ex_monthly
      = Inr [(24288, ''A'', Some 4), (24289, ''A'', Some 4), (24290, ''A'', Some 5)]"
    by (simp add: ex_monthly_def agg_defs)
  from densify_forward_fill [OF ne d, where brand = "''A''" and jan = 24288
      and u = "4 :: rat" and w = "5 :: rat"]
  obtain chart where c: "densify ex_monthly = Inr chart"
    and p: "\<forall>(m, b, v) \<in> set chart.
          case v of
            None \<Rightarrow> \<forall>m' x. (b, m', Some x) \<in> set ex_monthly \<longrightarrow> m < m'
          | Some x \<Rightarrow>
              \<exists>m'\<le>m. (b, m', Some x) \<in> set ex_monthly
                \<and> (\<forall>m'' y. m' < m'' \<and> m'' \<le> m \<longrightarrow> (b, m'', Some y) \<notin> set ex_monthly)"
    by blast
  from c ev have "chart = [(24288, ''A'', Some 4), (24289, ''A'', Some 4), (24290, ''A'', Some 5)]"
    by simp
  then have "(24289, ''A'', Some 4) \<in> set chart" by simp
  with p have "\<exists>m'\<le>24289. (''A'', m', Some 4) \<in> set ex_monthly"
    by fastforce
  with ne d ev show ?thesis by blast
qed

section \<open>Properties of the pages\<close>

text \<open>
  Claim C5 says that aggregating an empty dataset fails with a designated precondition
  error. It does not: on the empty frame, and on the dataset loaded from a file whose only
  row has an unparseable date, the page shows the warning of line 34 and raises nothing;
  and the aggregation of lines 36 to 46, were it run on these two empty datasets, would end
  in two different pandas exceptions (\<^verbatim>\<open>KeyError\<close> for the missing Date column,
  \<^verbatim>\<open>ValueError\<close> from \<^verbatim>\<open>date_range\<close> on an empty index), none of them a kind of its own.
\<close>

theorem empty_dataset_not_a_designated_error:
  "df_empty (empty_frame :: rat frame)
   \<and> monthly_ratings_page ex_mean empty_frame = Inr (St_warning ''No valid deduped CSV files found.'')
   \<and> chart_data ex_mean empty_frame = Inl (KeyError ''Date'')
   \<and> load_data ex_to_datetime ex_to_numeric [Table ex_bad_file]
       = Inr \<lparr>columns = [''Brand'', ''Date'', ''Rating''], rows = []\<rparr>
   \<and> df_empty (\<lparr>columns = [''Brand'', ''Date'', ''Rating''], rows = []\<rparr> :: rat frame)
   \<and> monthly_ratings_page ex_mean \<lparr>columns = [''Brand'', ''Date'', ''Rating''], rows = []\<rparr>
       = Inr (St_warning ''No valid deduped CSV files found.'')
   \<and> chart_data ex_mean \<lparr>columns = [''Brand'', ''Date'', ''Rating''], rows = []\<rparr> = Inl ValueError"
  by (simp add: page_defs agg_defs load_defs ex_defs upt_rec [of 0])

text \<open>
  Claim C5, amended. An empty dataset is never aggregated: the Monthly Ratings page tests
  \<^verbatim>\<open>df_all.empty\<close> first and then shows the warning "No valid deduped CSV files found."
  and raises nothing; a non-empty dataset never gets that warning, its outcome is that of
  the aggregation (the chart, or the exception the aggregation raises).
\<close>

theorem monthly_ratings_page_guard:
  "(df_empty df_all \<longrightarrow>
      monthly_ratings_page mean df_all = Inr (St_warning ''No valid deduped CSV files found.''))
   \<and> (\<not> df_empty df_all \<longrightarrow>
        monthly_ratings_page mean df_all \<noteq> Inr (St_warning ''No valid deduped CSV files found.'')
        \<and> monthly_ratings_page mean df_all = map_sum id Altair_chart (chart_data mean df_all))"
  by (simp add: monthly_ratings_page_def split: sum.splits)

theorem monthly_ratings_page_guard_witness:
  "load_data ex_to_datetime ex_to_numeric [Table ex_no_rating] = Inr empty_frame
   \<and> df_empty (empty_frame :: rat frame)
   \<and> monthly_ratings_page ex_mean empty_frame
       = Inr (St_warning ''No valid deduped CSV files found.'')
   \<and> map_sum id df_empty (load_data ex_to_datetime ex_to_numeric [Table ex_other]) = Inr False
   \<and> (case load_data ex_to_datetime ex_to_numeric [Table ex_other] of
         Inl e \<Rightarrow> Inl e | Inr df_all \<Rightarrow> monthly_ratings_page ex_mean df_all)
       = Inr (Altair_chart [(24290, Str ''B'', Some 5)])"
proof -
  have a: "load_data ex_to_datetime ex_to_numeric [Table ex_no_rating] = Inr empty_frame"
    by (simp add: load_defs ex_defs)
  have b: "df_empty (empty_frame :: rat frame)"
    by (simp add: df_empty_def empty_frame_def)
  have c: "map_sum id df_empty (load_data ex_to_datetime ex_to_numeric [Table ex_other]) = Inr False"
    by (simp add: df_empty_def load_defs ex_defs upt_rec [of 0])
  then obtain d where d: "load_data ex_to_datetime ex_to_numeric [Table ex_other] = Inr d"
    and ne: "\<not> df_empty d"
    by (cases "load_data ex_to_datetime ex_to_numeric [Table ex_other]") auto
  have ev: "(case load_data ex_to_datetime ex_to_numeric [Table ex_other] of
         Inl e \<Rightarrow> Inl e | Inr df_all \<Rightarrow> map_sum id Altair_chart (chart_data ex_mean df_all))
       = Inr (Altair_chart [(24290, Str ''B'', Some 5)])"
    by (simp add: page_defs agg_defs load_defs ex_defs upt_rec [of 0])
  from monthly_ratings_page_guard [of "empty_frame :: rat frame" ex_mean]
    monthly_ratings_page_guard [of d ex_mean] a b c d ne ev
  show ?thesis by simp
qed

text \<open>
  Claim C6. The Management Dashboard reports the missing MgmtFlag column with an error
  message of its own, exactly when the dataset has no such column; when the column is there
  and no row is flagged, it reports success with another message. The two outcomes differ
  (\<open>St_error\<close> and \<open>St_success\<close> are different constructors). The loaded dataset has no
  such column exactly when no file that passes the column check has one.
\<close>

theorem missing_flag_column_distinct:
  "(management_dashboard df_all from_date to_date
      = St_error (''MgmtFlag column not found in your CSVs. Make sure you'' @ [CHR 0x27]
                   @ ''ve re-scraped Ember with the latest script.'')
     \<longleftrightarrow> ''MgmtFlag'' \<notin> set (columns df_all))
   \<and> (''MgmtFlag'' \<in> set (columns df_all) \<and> flagged_rows df_all = [] \<longrightarrow>
        management_dashboard df_all from_date to_date
          = St_success ([CHR 0xE2, CHR 0x9C, CHR 0x85] @ '' No reviews flagged for management.''))
   \<and> (load_data dt nm fs = Inr d \<longrightarrow>
        (''MgmtFlag'' \<notin> set (columns d)
          \<longleftrightarrow> (\<forall>df. Table df \<in> set fs \<and> has_mandatory df \<longrightarrow> ''MgmtFlag'' \<notin> set (columns df))))"
proof -
  have "''MgmtFlag'' \<notin> set (columns d)
      \<longleftrightarrow> (\<forall>df. Table df \<in> set fs \<and> has_mandatory df \<longrightarrow> ''MgmtFlag'' \<notin> set (columns df))"
    if "load_data dt nm fs = Inr d"
  proof -
    from load_data_Inr [OF that] obtain dfs where "fs = map Table dfs"
      "set (columns d) = (\<Union>df \<in> {df \<in> set dfs. has_mandatory df}. set (columns df))"
      by blast
    then show ?thesis by auto
  qed
  then show ?thesis
    by (auto simp: management_dashboard_def Let_def)
qed

theorem missing_flag_column_distinct_witness:
  "map_sum id (\<lambda>d. ''MgmtFlag'' \<in> set (columns d))
       (load_data ex_to_datetime ex_to_numeric [Table ex_other]) = Inr False
   \<and> map_sum id (\<lambda>d. management_dashboard d (2024, 1, 1) (2024, 12, 31))
       (load_data ex_to_datetime ex_to_numeric [Table ex_other])
       = Inr (St_error (''MgmtFlag column not found in your CSVs. Make sure you'' @ [CHR 0x27]
                   @ ''ve re-scraped Ember with the latest script.''))
   \<and> map_sum id (\<lambda>d. ''MgmtFlag'' \<in> set (columns d))
       (load_data ex_to_datetime ex_to_numeric [Table ex_unflagged]) = Inr True
   \<and> map_sum id (\<lambda>d. length (flagged_rows d))
       (load_data ex_to_datetime ex_to_numeric [Table ex_unflagged]) = Inr 0
   \<and> map_sum id (\<lambda>d. management_dashboard d (2024, 1, 1) (2024, 12, 31))
       (load_data ex_to_datetime ex_to_numeric [Table ex_unflagged])
       = Inr (St_success ([CHR 0xE2, CHR 0x9C, CHR 0x85] @ '' No reviews flagged for management.''))"
proof -
  have a: "map_sum id (\<lambda>d. ''MgmtFlag'' \<in> set (columns d))
       (load_data ex_to_datetime ex_to_numeric [Table ex_other]) = Inr False"
    by (simp add: load_defs ex_defs upt_rec [of 0])
  have b: "map_sum id (\<lambda>d. ''MgmtFlag'' \<in> set (columns d))
       (load_data ex_to_datetime ex_to_numeric [Table ex_unflagged]) = Inr True"
    by (simp add: load_defs ex_defs upt_rec [of 0])
  have c: "map_sum id (\<lambda>d. length (flagged_rows d))
       (load_data ex_to_datetime ex_to_numeric [Table ex_unflagged]) = Inr 0"
    by (simp add: flagged_rows_def load_defs ex_defs upt_rec [of 0])
  from a obtain d1 where d1: "load_data ex_to_datetime ex_to_numeric [Table ex_other] = Inr d1"
    and n1: "''MgmtFlag'' \<notin> set (columns d1)"
    by (cases "load_data ex_to_datetime ex_to_numeric [Table ex_other]") auto
  from b c obtain d2 where d2: "load_data ex_to_datetime ex_to_numeric [Table ex_unflagged] = Inr d2"
    and n2: "''MgmtFlag'' \<in> set (columns d2)" "flagged_rows d2 = []"
    by (cases "load_data ex_to_datetime ex_to_numeric [Table ex_unflagged]") auto
  from missing_flag_column_distinct
         [of d1 "(2024, 1, 1)" "(2024, 12, 31)" ex_to_datetime ex_to_numeric "[Table ex_other]" d1]
       missing_flag_column_distinct
         [of d2 "(2024, 1, 1)" "(2024, 12, 31)" ex_to_datetime ex_to_numeric "[Table ex_unflagged]" d2]
       d1 n1 d2 n2
  show ?thesis by simp
qed

text \<open>
  Claim C9. A row is flagged exactly when its MgmtFlag cell is the text "Yes"; the reviews
  the dashboard shows are all such rows of the dataset; and a row of a file without a
  MgmtFlag column (its cell is missing in the dataset) is not flagged.
\<close>

theorem flagged_iff_Yes:
  "(r \<in> set (flagged_rows df_all) \<longleftrightarrow> r \<in> set (rows df_all) \<and> r ''MgmtFlag'' = Str ''Yes'')
   \<and> (management_dashboard df_all from_date to_date = Flagged_reviews rs \<longrightarrow>
        (\<forall>r \<in> set rs. r \<in> set (rows df_all) \<and> r ''MgmtFlag'' = Str ''Yes''))
   \<and> (''MgmtFlag'' \<notin> set cs \<longrightarrow> reindex_row cs r ''MgmtFlag'' \<noteq> Str ''Yes'')"
  by (auto simp: flagged_rows_def management_dashboard_def Let_def reindex_row_def
      split: if_splits)

theorem flagged_iff_Yes_witness:
  "map_sum id (\<lambda>d. map (\<lambda>r. (r ''Brand'', r ''MgmtFlag'')) (rows d))
       (load_data ex_to_datetime ex_to_numeric [Table ex_file, Table ex_unflagged, Table ex_other])
     = Inr [(Str ''A'', Str ''No''), (Str ''A'', Str ''Yes''), (Str ''B'', NaN),
            (Str ''A'', Str ''yes''), (Str ''B'', NaN)]
   \<and> map_sum id (\<lambda>d. map (\<lambda>r. (r ''Brand'', r ''MgmtFlag'')) (flagged_rows d))
       (load_data ex_to_datetime ex_to_numeric [Table ex_file, Table ex_unflagged, Table ex_other])
     = Inr [(Str ''A'', Str ''Yes'')]
   \<and> map_sum id (\<lambda>d. management_dashboard d (2024, 1, 1) (2024, 12, 31) = Flagged_reviews (flagged_rows d))
       (load_data ex_to_datetime ex_to_numeric [Table ex_file, Table ex_unflagged, Table ex_other])
     = Inr True
   \<and> ''MgmtFlag'' \<notin> set (columns ex_other)
   \<and> reindex_row (columns ex_other) (hd (rows ex_other)) ''MgmtFlag'' \<noteq> Str ''Yes''"
proof -
  let ?load = "load_data ex_to_datetime ex_to_numeric [Table ex_file, Table ex_unflagged, Table ex_other]"
  have a: "map_sum id (\<lambda>d. map (\<lambda>r. (r ''Brand'', r ''MgmtFlag'')) (rows d)) ?load
     = Inr [(Str ''A'', Str ''No''), (Str ''A'', Str ''Yes''), (Str ''B'', NaN),
            (Str ''A'', Str ''yes''), (Str ''B'', NaN)]"
    by (simp add: load_defs ex_defs upt_rec [of _ "numeral _"] upt_rec [of 0])
  have b: "map_sum id (\<lambda>d. map (\<lambda>r. (r ''Brand'', r ''MgmtFlag'')) (flagged_rows d)) ?load
     = Inr [(Str ''A'', Str ''Yes'')]"
    by (simp add: flagged_rows_def load_defs ex_defs upt_rec [of _ "numeral _"] upt_rec [of 0])
  have c: "map_sum id (\<lambda>d. management_dashboard d (2024, 1, 1) (2024, 12, 31)
        = Flagged_reviews (flagged_rows d)) ?load = Inr True"
    by (simp add: mgmt_defs load_defs ex_defs upt_rec [of _ "numeral _"] upt_rec [of 0])
  have d: "''MgmtFlag'' \<notin> set (columns ex_other)" by (simp add: ex_defs)
  from c obtain df_all where l: "?load = Inr df_all"
    and m: "management_dashboard df_all (2024, 1, 1) (2024, 12, 31)
        = Flagged_reviews (flagged_rows df_all)"
    by (cases ?load) auto
  from flagged_iff_Yes [of "hd (rows ex_other)" df_all "(2024, 1, 1)" "(2024, 12, 31)"
      "flagged_rows df_all" "columns ex_other"] m d
  have "reindex_row (columns ex_other) (hd (rows ex_other)) ''MgmtFlag'' \<noteq> Str ''Yes''"
    by blast
  with a b c d show ?thesis by blast
qed

text \<open>
  The filter of line 85 compares timestamps: a flagged row passes exactly when its
  timestamp lies between midnight of the from-date and midnight of the to-date, both
  included. Hence a review written on the to-date after midnight does not pass.
\<close>

lemma mask_iff:
  "mask from_date to_date r \<longleftrightarrow>
     (\<exists>t. r ''Date'' = Ts t \<and> (from_date, 0) \<le> t \<and> t \<le> (to_date, 0))"
  by (auto simp: mask_def split: cell.splits)

lemma mask_to_date_after_midnight:
  "r ''Date'' = Ts (to_date, ns) \<Longrightarrow> 0 < ns \<Longrightarrow> \<not> mask from_date to_date r"
  by (simp add: mask_def)

text \<open>
  Claim C10 says that a flagged review is shown exactly when its date is from the from-date
  to the to-date, both included. The dataset loaded from the file \<open>ex_flagged\<close> has one
  review, flagged, of 5 March 2024, 14:30 UTC; both date pickers then default to
  5 March 2024 (lines 80 to 83), and with these dates the page shows no review: the
  review's date is the to-date, and it is left out.
\<close>

theorem to_date_review_not_shown:
  "map_sum id (\<lambda>d. map (\<lambda>r. (r ''Brand'', r ''Date'', r ''MgmtFlag'')) (flagged_rows d))
       (load_data ex_to_datetime ex_to_numeric [Table ex_flagged])
     = Inr [(Str ''A'', Ts ((2024, 3, 5), 52200000000000), Str ''Yes'')]
   \<and> map_sum id (\<lambda>d. min_date (flagged_rows d))
       (load_data ex_to_datetime ex_to_numeric [Table ex_flagged]) = Inr (Some (2024, 3, 5))
   \<and> map_sum id (\<lambda>d. max_date (flagged_rows d))
       (load_data ex_to_datetime ex_to_numeric [Table ex_flagged]) = Inr (Some (2024, 3, 5))
   \<and> map_sum id (\<lambda>d. management_dashboard d (2024, 3, 5) (2024, 3, 5))
       (load_data ex_to_datetime ex_to_numeric [Table ex_flagged]) = Inr (Flagged_reviews [])"
  by (simp add: mgmt_defs load_defs ex_defs upt_rec [of 0])

end
